theory Spec2Isabelle
  imports Complex_Main
begin

section \<open>Geometrical segmentation evaluation: the matching engine of \<open>eval_geom.py\<close>\<close>

text \<open>
  The development embeds the shape matching functions and the error type classification
  functions of \<open>eval_geom.py\<close>. Matrices have one row per reference element and one
  column per test element.

  Modelling decisions:
  \<^item> a finite \<open>numpy\<close> float is read as the real number it denotes, and the value of an
    array cell that a sum has produced is an \<open>npfloat\<close>: a finite value, an infinity or a
    NaN;
  \<^item> \<open>numpy\<close>'s \<open>sum()\<close> returns the float64 sum of a slice, which is rounded, may
    overflow, and whose order of additions belongs to the library; it is a parameter
    \<open>np_sum\<close> of the functions that call it, so that nothing proved here depends on a
    sum being exact. A model of float64 addition in the order of the elements is given
    for the closed examples;
  \<^item> a quotient is compared with a threshold as a real number, and a division by zero,
    by an infinity or by a NaN, none of which raises, is written out in
    \<open>np_true_divide\<close>;
  \<^item> Python integers are \<open>int\<close>, lengths and indices are \<open>nat\<close>;
  \<^item> the polygon library is outside the repository: the intersection operator \<open>&\<close> and
    the method \<open>area()\<close> are parameters \<open>intersection\<close> and \<open>area\<close> of the functions that use
    them;
  \<^item> a failed \<open>assert\<close> is an error value.
\<close>

subsection \<open>Data\<close>

text \<open>\<open>SegmentationAnnotation = namedtuple(..., ["shape", "type", "attributes"])\<close>.\<close>

record 'p annotation =
  shape :: 'p
  type :: string
  attributes :: "string \<rightharpoonup> string"

text \<open>
  A two-dimensional \<open>numpy\<close> array: its shape and its cells. Only the cells inside the
  shape exist in the program; the functions below read and write no others, because every
  loop ranges over the shape.
\<close>

record 'a ndarray =
  shape0 :: nat
  shape1 :: nat
  cell :: "nat \<Rightarrow> nat \<Rightarrow> 'a"

text \<open>
  \<open>np.empty((n, m))\<close> allocates without initialising; \<open>fill\<close> stands for whatever the
  memory holds. Every function that starts from \<open>np.empty\<close> then assigns each cell.
\<close>

definition np_empty :: "nat \<Rightarrow> nat \<Rightarrow> 'a \<Rightarrow> 'a ndarray" where
  "np_empty n m fill = \<lparr>shape0 = n, shape1 = m, cell = (\<lambda>_ _. fill)\<rparr>"

text \<open>The assignment \<open>a[i,j] = v\<close>.\<close>

definition setitem :: "'a ndarray \<Rightarrow> nat \<Rightarrow> nat \<Rightarrow> 'a \<Rightarrow> 'a ndarray" where
  "setitem a i j v = a\<lparr>cell := (cell a)(i := (cell a i)(j := v))\<rparr>"

text \<open>The slices \<open>a[i,:]\<close> and \<open>a[:,j]\<close> of a two-dimensional array.\<close>

definition row_slice :: "'a ndarray \<Rightarrow> nat \<Rightarrow> 'a list" where
  "row_slice a i = map (\<lambda>j. cell a i j) [0..<shape1 a]"

definition col_slice :: "'a ndarray \<Rightarrow> nat \<Rightarrow> 'a list" where
  "col_slice a j = map (\<lambda>i. cell a i j) [0..<shape0 a]"

text \<open>\<open>np.empty(n)\<close>, one-dimensional.\<close>

definition np_empty_vect :: "nat \<Rightarrow> 'a \<Rightarrow> 'a list" where
  "np_empty_vect n fill = replicate n fill"

text \<open>
  A float64 value: finite, an infinity, or a NaN. An infinity compares as expected, a NaN
  makes every comparison false.
\<close>

datatype npfloat = Finite real | PosInf | NegInf | NaN

fun np_ge :: "npfloat \<Rightarrow> real \<Rightarrow> bool" where
  "np_ge (Finite v) t = (v \<ge> t)"
| "np_ge PosInf t = True"
| "np_ge NegInf t = False"
| "np_ge NaN t = False"

fun np_gt :: "npfloat \<Rightarrow> real \<Rightarrow> bool" where
  "np_gt (Finite v) t = (v > t)"
| "np_gt PosInf t = True"
| "np_gt NegInf t = False"
| "np_gt NaN t = False"

text \<open>
  The quotient of a finite float by a float in \<open>numpy\<close>. A zero divisor does not raise: it
  gives an infinity of the sign of the dividend, or NaN for \<open>0/0\<close>. An infinite divisor
  gives zero and a NaN divisor gives NaN.
\<close>

fun np_true_divide :: "real \<Rightarrow> npfloat \<Rightarrow> npfloat" where
  "np_true_divide x (Finite d) =
     (if d \<noteq> 0 then Finite (x / d)
      else if 0 < x then PosInf
      else if x < 0 then NegInf
      else NaN)"
| "np_true_divide x PosInf = Finite 0"
| "np_true_divide x NegInf = Finite 0"
| "np_true_divide x NaN = NaN"

text \<open>
  A quotient together with the list of the divisors used so far, to which its own divisor
  is added.
\<close>

definition divide_logged :: "real \<Rightarrow> npfloat \<Rightarrow> npfloat list \<Rightarrow> npfloat \<times> npfloat list" where
  "divide_logged x d divisors = (np_true_divide x d, divisors @ [d])"


fun np_real_le :: "real \<Rightarrow> npfloat \<Rightarrow> bool" where
  "np_real_le x (Finite v) = (x \<le> v)"
| "np_real_le x PosInf = True"
| "np_real_le x NegInf = False"
| "np_real_le x NaN = False"

text \<open>
  The one property of a float64 sum that the positivity of the margins rests on: the sum
  of a vector without negative entries is at least each of its entries. Float64 addition
  has it on every vector of floats, in whatever order the entries are added, because
  rounding is monotone and leaves a float unchanged.
\<close>

definition sum_bounds_entries :: "(real list \<Rightarrow> npfloat) \<Rightarrow> real list \<Rightarrow> bool" where
  "sum_bounds_entries np_sum xs =
     (list_all (\<lambda>x. 0 \<le> x) xs \<longrightarrow> list_all (\<lambda>x. np_real_le x (np_sum xs)) xs)"

subsection \<open>Float64 addition\<close>

text \<open>
  IEEE 754 binary64 addition with rounding to nearest, ties to even: the exact sum is
  rounded to a multiple of the unit in the last place of its binade (53 significant bits,
  exponents from \<open>-1022\<close>, below which the unit stays \<open>2^-1074\<close>), and a rounded magnitude
  of \<open>2^1024\<close> or more overflows to an infinity. \<open>f64_sum_in_order\<close> adds the elements
  from left to right starting from \<open>0.0\<close>. On a slice of at most two floats every order
  of additions returns the same float, so this is the value of \<open>sum()\<close> there; the closed
  examples use such slices only.
\<close>

definition pow2 :: "int \<Rightarrow> real" where
  "pow2 k = (if 0 \<le> k then 2 ^ nat k else 1 / 2 ^ nat (- k))"

definition round_half_even :: "real \<Rightarrow> int" where
  "round_half_even x =
     (let f = \<lfloor>x\<rfloor>; d = x - of_int f in
      if d < 1 / 2 then f
      else if 1 / 2 < d then f + 1
      else if even f then f else f + 1)"

text \<open>
  The binade of a positive magnitude \<open>m\<close>: the \<open>e\<close> with \<open>2^e \<le> m < 2^(e+1)\<close>, found by
  halving or doubling; the fuel bounds the search beyond the range of the exponents.
\<close>

fun f64_binade :: "nat \<Rightarrow> real \<Rightarrow> int \<Rightarrow> int" where
  "f64_binade 0 m e = e"
| "f64_binade (Suc fuel) m e =
     (if 2 \<le> m then f64_binade fuel (m / 2) (e + 1)
      else if m < 1 then f64_binade fuel (m * 2) (e - 1)
      else e)"

definition f64_round :: "real \<Rightarrow> npfloat" where
  "f64_round x =
     (if x = 0 then Finite 0
      else
        (let e = max (- 1022) (f64_binade 2200 \<bar>x\<bar> 0);
             ulp = pow2 (e - 52);
             r = of_int (round_half_even (x / ulp)) * ulp
         in if pow2 1024 \<le> \<bar>r\<bar> then (if 0 < x then PosInf else NegInf) else Finite r))"

fun f64_add :: "npfloat \<Rightarrow> npfloat \<Rightarrow> npfloat" where
  "f64_add (Finite a) (Finite b) = f64_round (a + b)"
| "f64_add NaN _ = NaN"
| "f64_add _ NaN = NaN"
| "f64_add PosInf NegInf = NaN"
| "f64_add NegInf PosInf = NaN"
| "f64_add PosInf _ = PosInf"
| "f64_add _ PosInf = PosInf"
| "f64_add NegInf _ = NegInf"
| "f64_add _ NegInf = NegInf"

definition f64_sum_in_order :: "real list \<Rightarrow> npfloat" where
  "f64_sum_in_order xs = foldl f64_add (Finite 0) (map Finite xs)"

datatype error = AssertionError string nat nat nat

subsection \<open>Shape matching functions\<close>

definition compute_weight_mat ::
  "('p \<Rightarrow> 'p \<Rightarrow> 'p) \<Rightarrow> ('p \<Rightarrow> real) \<Rightarrow> 'p annotation list \<Rightarrow> 'p annotation list
     \<Rightarrow> real ndarray" where
  "compute_weight_mat intersection area ref_data_vect test_data_vect =
     fold (\<lambda>i weight_mat.
        fold (\<lambda>j weight_mat.
           setitem weight_mat i j
             (area (intersection (shape (ref_data_vect ! i)) (shape (test_data_vect ! j)))))
          [0..<length test_data_vect] weight_mat)
       [0..<length ref_data_vect]
       (np_empty (length ref_data_vect) (length test_data_vect) 0)"

text \<open>
  The margin vectors. \<open>np_sum\<close> stands for the method \<open>sum()\<close> of a one-dimensional slice.
\<close>

definition compute_ref_margin_vect :: "(real list \<Rightarrow> npfloat) \<Rightarrow> real ndarray \<Rightarrow> npfloat list" where
  "compute_ref_margin_vect np_sum weight_mat =
     (let reflen = shape0 weight_mat in
      fold (\<lambda>i ref_margin_vect. ref_margin_vect[i := np_sum (row_slice weight_mat i)])
        [0..<reflen] (np_empty_vect reflen (Finite 0)))"

definition compute_test_margin_vect :: "(real list \<Rightarrow> npfloat) \<Rightarrow> real ndarray \<Rightarrow> npfloat list" where
  "compute_test_margin_vect np_sum weight_mat =
     (let testlen = shape1 weight_mat in
      fold (\<lambda>j test_margin_vect. test_margin_vect[j := np_sum (col_slice weight_mat j)])
        [0..<testlen] (np_empty_vect testlen (Finite 0)))"

definition thresholdRelative :: real where
  "thresholdRelative = 0.2"

definition threshold_ref :: real where
  "threshold_ref = 0.5"

definition threshold_test :: real where
  "threshold_test = 0.5"

text \<open>
  The body of the inner loop of \<open>compute_link_mat\<close>: the value of \<open>significant\<close> that
  is stored in \<open>link_mat[i,j]\<close>.
\<close>

definition significant ::
  "('p \<Rightarrow> real) \<Rightarrow> real ndarray \<Rightarrow> npfloat list \<Rightarrow> npfloat list
     \<Rightarrow> 'p annotation list \<Rightarrow> 'p annotation list \<Rightarrow> nat \<Rightarrow> nat \<Rightarrow> bool" where
  "significant area weight_mat ref_margin_vect test_margin_vect ref_data_vect test_data_vect i j =
     (if cell weight_mat i j > 0 then
        (if np_ge (np_true_divide (cell weight_mat i j) (ref_margin_vect ! i)) thresholdRelative
         then
           (if np_gt (np_true_divide (cell weight_mat i j)
                        (Finite (area (shape (ref_data_vect ! i)))))
                 threshold_ref
            then True else False)
         else if np_ge (np_true_divide (cell weight_mat i j) (test_margin_vect ! j))
                   thresholdRelative
         then
           (if np_gt (np_true_divide (cell weight_mat i j)
                        (Finite (area (shape (test_data_vect ! j)))))
                 threshold_test
            then True else False)
         else False)
      else False)"

text \<open>
  The same body with every quotient taken by \<open>divide_logged\<close>: it returns the value of
  \<open>significant\<close> and the divisors of the quotients that were evaluated for the pair
  \<open>(i, j)\<close>, in the order of evaluation. \<open>link_divisors\<close> is that list.
\<close>

definition significant_logged ::
  "('p \<Rightarrow> real) \<Rightarrow> real ndarray \<Rightarrow> npfloat list \<Rightarrow> npfloat list
     \<Rightarrow> 'p annotation list \<Rightarrow> 'p annotation list \<Rightarrow> nat \<Rightarrow> nat \<Rightarrow> bool \<times> npfloat list" where
  "significant_logged area weight_mat ref_margin_vect test_margin_vect
       ref_data_vect test_data_vect i j =
     (if cell weight_mat i j > 0 then
        (let (rel_ref, d1) = divide_logged (cell weight_mat i j) (ref_margin_vect ! i) [] in
         if np_ge rel_ref thresholdRelative then
           (let (abs_ref, d2) =
                  divide_logged (cell weight_mat i j)
                    (Finite (area (shape (ref_data_vect ! i)))) d1
            in (if np_gt abs_ref threshold_ref then True else False, d2))
         else
           (let (rel_test, d3) = divide_logged (cell weight_mat i j) (test_margin_vect ! j) d1 in
            if np_ge rel_test thresholdRelative then
              (let (abs_test, d4) =
                     divide_logged (cell weight_mat i j)
                       (Finite (area (shape (test_data_vect ! j)))) d3
               in (if np_gt abs_test threshold_test then True else False, d4))
            else (False, d3)))
      else (False, []))"


definition compute_link_mat ::
  "('p \<Rightarrow> real) \<Rightarrow> real ndarray \<Rightarrow> npfloat list \<Rightarrow> npfloat list
     \<Rightarrow> 'p annotation list \<Rightarrow> 'p annotation list \<Rightarrow> error + bool ndarray" where
  "compute_link_mat area weight_mat ref_margin_vect test_margin_vect ref_data_vect test_data_vect =
     (let reflen = shape0 weight_mat; testlen = shape1 weight_mat in
      if \<not> (reflen = length ref_margin_vect \<and> length ref_margin_vect = length ref_data_vect)
      then Inl (AssertionError ''Reference vectors have different lenghts: w:%d m:%d d:%d''
                  reflen (length ref_margin_vect) (length ref_data_vect))
      else if \<not> (testlen = length test_margin_vect
                   \<and> length test_margin_vect = length test_data_vect)
      then Inl (AssertionError ''Test vectors have different lenghts: w:%d m:%d d:%d''
                  testlen (length test_margin_vect) (length test_data_vect))
      else Inr
        (fold (\<lambda>i link_mat.
            fold (\<lambda>j link_mat.
               setitem link_mat i j
                 (significant area weight_mat ref_margin_vect test_margin_vect
                    ref_data_vect test_data_vect i j))
              [0..<length test_margin_vect] link_mat)
           [0..<length ref_margin_vect]
           (np_empty (length ref_data_vect) (length test_data_vect) False)))"

subsection \<open>Error type classification functions\<close>

text \<open>
  The inner loops. \<open>count_matches\<close> is the loop \<open>if link: match_flag += 1\<close>;
  \<open>count_matches_index\<close> also records the last matching index, as the first loop of
  \<open>find_total_correct_segmentation\<close> does; \<open>first_match\<close> is the loop that leaves at the
  first match (\<open>break\<close>).
\<close>

definition count_matches :: "(nat \<Rightarrow> bool) \<Rightarrow> nat \<Rightarrow> int" where
  "count_matches linked n =
     fold (\<lambda>k match_flag. if linked k then match_flag + 1 else match_flag) [0..<n] 0"

definition count_matches_index :: "(nat \<Rightarrow> bool) \<Rightarrow> nat \<Rightarrow> int \<times> nat" where
  "count_matches_index linked n =
     fold (\<lambda>j (row_match_count, row_match_index).
             if linked j then (row_match_count + 1, j) else (row_match_count, row_match_index))
       [0..<n] (0, 0)"

fun first_match :: "(nat \<Rightarrow> bool) \<Rightarrow> nat list \<Rightarrow> int \<Rightarrow> int" where
  "first_match linked [] match_flag = match_flag"
| "first_match linked (k # ks) match_flag =
     (if linked k then match_flag + 1 else first_match linked ks match_flag)"

definition find_total_correct_segmentation :: "bool ndarray \<Rightarrow> int" where
  "find_total_correct_segmentation link_mat =
     (let reflen = shape0 link_mat; testlen = shape1 link_mat in
      fold (\<lambda>i total_correct_segmentation.
         (let (row_match_count, row_match_index) =
                count_matches_index (\<lambda>j. cell link_mat i j) testlen
          in if row_match_count = 1 then
               (let col_match_count =
                      count_matches (\<lambda>ii. cell link_mat ii row_match_index) reflen
                in if col_match_count = 1 then total_correct_segmentation + 1
                   else total_correct_segmentation)
             else total_correct_segmentation))
        [0..<reflen] 0)"

definition find_total_over_segmentation :: "bool ndarray \<Rightarrow> int" where
  "find_total_over_segmentation link_mat =
     (let reflen = shape0 link_mat; testlen = shape1 link_mat;
          (number_refc_at_least_one_edge, number_significant_refc) =
            fold (\<lambda>i (number_refc_at_least_one_edge, number_significant_refc).
               (let match_flag = count_matches (\<lambda>j. cell link_mat i j) testlen
                in if match_flag > 1
                   then (number_refc_at_least_one_edge + match_flag, number_significant_refc + 1)
                   else (number_refc_at_least_one_edge, number_significant_refc)))
              [0..<reflen] (0, 0)
      in number_refc_at_least_one_edge - number_significant_refc)"

definition find_total_under_segmentation :: "bool ndarray \<Rightarrow> int" where
  "find_total_under_segmentation link_mat =
     (let reflen = shape0 link_mat; testlen = shape1 link_mat;
          (number_testc_at_least_one_edge, number_significant_testc) =
            fold (\<lambda>j (number_testc_at_least_one_edge, number_significant_testc).
               (let match_flag = count_matches (\<lambda>i. cell link_mat i j) reflen
                in if match_flag > 1
                   then (number_testc_at_least_one_edge + match_flag, number_significant_testc + 1)
                   else (number_testc_at_least_one_edge, number_significant_testc)))
              [0..<testlen] (0, 0)
      in number_testc_at_least_one_edge - number_significant_testc)"

definition find_num_over_segmentation_components :: "bool ndarray \<Rightarrow> int" where
  "find_num_over_segmentation_components link_mat =
     (let reflen = shape0 link_mat; testlen = shape1 link_mat in
      fold (\<lambda>i num_over_segmentation_component.
         (let match_flag = count_matches (\<lambda>j. cell link_mat i j) testlen
          in if match_flag > 1 then num_over_segmentation_component + 1
             else num_over_segmentation_component))
        [0..<reflen] 0)"

definition find_num_under_segmentation_components :: "bool ndarray \<Rightarrow> int" where
  "find_num_under_segmentation_components link_mat =
     (let reflen = shape0 link_mat; testlen = shape1 link_mat in
      fold (\<lambda>j num_under_segmentation_component.
         (let match_flag = count_matches (\<lambda>i. cell link_mat i j) reflen
          in if match_flag > 1 then num_under_segmentation_component + 1
             else num_under_segmentation_component))
        [0..<testlen] 0)"

definition find_num_missed_components :: "bool ndarray \<Rightarrow> int" where
  "find_num_missed_components link_mat =
     (let reflen = shape0 link_mat; testlen = shape1 link_mat in
      fold (\<lambda>i num_missed_components.
         (let match_flag = first_match (\<lambda>j. cell link_mat i j) [0..<testlen] 0
          in if match_flag = 0 then num_missed_components + 1 else num_missed_components))
        [0..<reflen] 0)"

definition find_num_false_alarm_components :: "bool ndarray \<Rightarrow> int" where
  "find_num_false_alarm_components link_mat =
     (let reflen = shape0 link_mat; testlen = shape1 link_mat in
      fold (\<lambda>j num_false_alarm_components.
         (let match_flag = first_match (\<lambda>i. cell link_mat i j) [0..<reflen] 0
          in if match_flag = 0 then num_false_alarm_components + 1
             else num_false_alarm_components))
        [0..<testlen] 0)"

subsection \<open>The evaluation run\<close>

text \<open>
  The part of \<open>main\<close> between "Process started" and "Process complete": the optional
  restriction to some annotation types (\<open>args.type_restriction\<close> is \<open>None\<close> or a list of
  type names, and an empty list restricts nothing), then the four stages, then the nine
  counts that are logged and exported. \<open>np_sum\<close> is the sum that the margin functions
  call.
\<close>

record metrics =
  Tc :: int
  To :: int
  Tu :: int
  Co :: int
  Cu :: int
  Cm :: int
  Cf :: int
  Cr :: nat
  Ct :: nat

definition restrict_types :: "string list option \<Rightarrow> 'p annotation list \<Rightarrow> 'p annotation list" where
  "restrict_types type_restriction input_vect =
     (case type_restriction of
        None \<Rightarrow> input_vect
      | Some ts \<Rightarrow> if ts = [] then input_vect else filter (\<lambda>annot. type annot \<in> set ts) input_vect)"

definition main_process ::
  "('p \<Rightarrow> 'p \<Rightarrow> 'p) \<Rightarrow> ('p \<Rightarrow> real) \<Rightarrow> (real list \<Rightarrow> npfloat) \<Rightarrow> string list option
     \<Rightarrow> 'p annotation list \<Rightarrow> 'p annotation list \<Rightarrow> error + metrics" where
  "main_process intersection area np_sum type_restriction ref_input_vect test_input_vect =
     (let ref_data_vect = restrict_types type_restriction ref_input_vect;
          test_data_vect = restrict_types type_restriction test_input_vect;
          weight_mat = compute_weight_mat intersection area ref_data_vect test_data_vect;
          ref_margin_vect = compute_ref_margin_vect np_sum weight_mat;
          test_margin_vect = compute_test_margin_vect np_sum weight_mat
      in case compute_link_mat area weight_mat ref_margin_vect test_margin_vect
                ref_data_vect test_data_vect of
           Inl e \<Rightarrow> Inl e
         | Inr link_mat \<Rightarrow>
             Inr \<lparr>Tc = find_total_correct_segmentation link_mat,
                  To = find_total_over_segmentation link_mat,
                  Tu = find_total_under_segmentation link_mat,
                  Co = find_num_over_segmentation_components link_mat,
                  Cu = find_num_under_segmentation_components link_mat,
                  Cm = find_num_missed_components link_mat,
                  Cf = find_num_false_alarm_components link_mat,
                  Cr = shape0 link_mat,
                  Ct = shape1 link_mat\<rparr>)"

subsection \<open>Degrees in a link matrix\<close>

text \<open>
  The vocabulary of the specification: the degree of a reference row is the number of
  test columns it is linked to, the degree of a test column the number of reference rows.
\<close>

definition row_degree :: "bool ndarray \<Rightarrow> nat \<Rightarrow> nat" where
  "row_degree link_mat i = length (filter (\<lambda>j. cell link_mat i j) [0..<shape1 link_mat])"

definition col_degree :: "bool ndarray \<Rightarrow> nat \<Rightarrow> nat" where
  "col_degree link_mat j = length (filter (\<lambda>i. cell link_mat i j) [0..<shape0 link_mat])"

section \<open>Properties\<close>

subsection \<open>Loops that fill an array\<close>

lemma fold_list_update_length:
  "length (fold (\<lambda>i v. v[i := f i]) xs v) = length v"
  by (induction xs arbitrary: v) simp_all

lemma fold_list_update_nth:
  "k < length v \<Longrightarrow> fold (\<lambda>i v. v[i := f i]) xs v ! k = (if k \<in> set xs then f k else v ! k)"
proof (induction xs arbitrary: v)
  case Nil
  then show ?case by simp
next
  case (Cons x xs)
  then show ?case by (simp add: nth_list_update)
qed

subsection \<open>Margin vectors\<close>

lemma length_compute_ref_margin_vect:
  "length (compute_ref_margin_vect np_sum w) = shape0 w"
  by (simp add: compute_ref_margin_vect_def Let_def np_empty_vect_def fold_list_update_length)

lemma length_compute_test_margin_vect:
  "length (compute_test_margin_vect np_sum w) = shape1 w"
  by (simp add: compute_test_margin_vect_def Let_def np_empty_vect_def fold_list_update_length)

lemma nth_compute_ref_margin_vect:
  "i < shape0 w \<Longrightarrow> compute_ref_margin_vect np_sum w ! i = np_sum (row_slice w i)"
  by (simp add: compute_ref_margin_vect_def Let_def np_empty_vect_def fold_list_update_nth)

lemma nth_compute_test_margin_vect:
  "j < shape1 w \<Longrightarrow> compute_test_margin_vect np_sum w ! j = np_sum (col_slice w j)"
  by (simp add: compute_test_margin_vect_def Let_def np_empty_vect_def fold_list_update_nth)

lemma sum_list_row_slice: "sum_list (row_slice w i) = (\<Sum>j<shape1 w. cell w i j)"
  by (simp add: row_slice_def interv_sum_list_conv_sum_set_nat atLeast0LessThan)

lemma sum_list_col_slice: "sum_list (col_slice w j) = (\<Sum>i<shape0 w. cell w i j)"
  by (simp add: col_slice_def interv_sum_list_conv_sum_set_nat atLeast0LessThan)

text \<open>With a \<open>sum()\<close> that rounds nothing away, each margin is the sum of its row or column.\<close>

lemma exact_sum_margins:
  "i < shape0 w \<Longrightarrow>
   compute_ref_margin_vect (\<lambda>xs. Finite (sum_list xs)) w ! i = Finite (\<Sum>j<shape1 w. cell w i j)"
  "j < shape1 w \<Longrightarrow>
   compute_test_margin_vect (\<lambda>xs. Finite (sum_list xs)) w ! j = Finite (\<Sum>i<shape0 w. cell w i j)"
  by (simp_all add: nth_compute_ref_margin_vect nth_compute_test_margin_vect
      sum_list_row_slice sum_list_col_slice)

lemma f64_binade_numeral [simp]:
  "f64_binade (numeral k) m e =
     (if 2 \<le> m then f64_binade (pred_numeral k) (m / 2) (e + 1)
      else if m < 1 then f64_binade (pred_numeral k) (m * 2) (e - 1)
      else e)"
  by (simp add: numeral_eq_Suc)




subsection \<open>The link matrix\<close>

lemma setitem_shape [simp]:
  "shape0 (setitem a i j v) = shape0 a" "shape1 (setitem a i j v) = shape1 a"
  by (simp_all add: setitem_def)

lemma setitem_cell:
  "cell (setitem a i j v) i' j' = (if i' = i \<and> j' = j then v else cell a i' j')"
  by (simp add: setitem_def)

lemma fold_setitem_row_shape:
  "shape0 (fold (\<lambda>j a. setitem a i j (f j)) ys a) = shape0 a
   \<and> shape1 (fold (\<lambda>j a. setitem a i j (f j)) ys a) = shape1 a"
  by (induction ys arbitrary: a) simp_all

lemma fold_setitem_row_cell:
  "cell (fold (\<lambda>j a. setitem a i j (f j)) ys a) i' j' =
     (if i' = i \<and> j' \<in> set ys then f j' else cell a i' j')"
  by (induction ys arbitrary: a) (auto simp: setitem_cell)

lemma fold_setitem_shape:
  "shape0 (fold (\<lambda>i a. fold (\<lambda>j a. setitem a i j (f i j)) ys a) xs a) = shape0 a
   \<and> shape1 (fold (\<lambda>i a. fold (\<lambda>j a. setitem a i j (f i j)) ys a) xs a) = shape1 a"
  by (induction xs arbitrary: a) (simp_all add: fold_setitem_row_shape)

lemma fold_setitem_cell:
  "cell (fold (\<lambda>i a. fold (\<lambda>j a. setitem a i j (f i j)) ys a) xs a) i' j' =
     (if i' \<in> set xs \<and> j' \<in> set ys then f i' j' else cell a i' j')"
  by (induction xs arbitrary: a) (auto simp: fold_setitem_row_cell)

lemma compute_weight_mat_shape:
  "shape0 (compute_weight_mat intersection area rd td) = length rd"
  "shape1 (compute_weight_mat intersection area rd td) = length td"
  by (simp_all add: compute_weight_mat_def fold_setitem_shape np_empty_def)

lemma compute_weight_mat_cell:
  "i < length rd \<Longrightarrow> j < length td \<Longrightarrow>
   cell (compute_weight_mat intersection area rd td) i j =
     area (intersection (shape (rd ! i)) (shape (td ! j)))"
  by (simp add: compute_weight_mat_def fold_setitem_cell)

lemma compute_link_mat_Inr:
  assumes "compute_link_mat area w rm tm rd td = Inr l"
  shows "shape0 w = length rm" "length rm = length rd"
    "shape1 w = length tm" "length tm = length td"
    "shape0 l = shape0 w" "shape1 l = shape1 w"
    "\<And>i j. i < shape0 w \<Longrightarrow> j < shape1 w \<Longrightarrow> cell l i j = significant area w rm tm rd td i j"
proof -
  from assms show a: "shape0 w = length rm" and b: "length rm = length rd"
    and c: "shape1 w = length tm" and d: "length tm = length td"
    by (auto simp: compute_link_mat_def Let_def split: if_splits)
  from assms a b c d have l: "l = fold (\<lambda>i link_mat.
            fold (\<lambda>j link_mat.
               setitem link_mat i j (significant area w rm tm rd td i j))
              [0..<length tm] link_mat)
           [0..<length rm]
           (np_empty (length rd) (length td) False)"
    by (simp add: compute_link_mat_def Let_def)
  show "shape0 l = shape0 w" using a b by (simp add: l fold_setitem_shape np_empty_def)
  show "shape1 l = shape1 w" using c d by (simp add: l fold_setitem_shape np_empty_def)
  show "\<And>i j. i < shape0 w \<Longrightarrow> j < shape1 w \<Longrightarrow> cell l i j = significant area w rm tm rd td i j"
    using a c by (simp add: l fold_setitem_cell)
qed

lemma compute_link_mat_ok:
  assumes "shape0 w = length rm" "length rm = length rd"
    "shape1 w = length tm" "length tm = length td"
  shows "\<exists>l. compute_link_mat area w rm tm rd td = Inr l"
  using assms by (simp add: compute_link_mat_def Let_def)

text \<open>
  C1 (the asymmetric rule). When the lengths agree, for every pair \<open>(i, j)\<close> inside the
  matrix with a positive weight, the link is decided by the reference side alone as soon
  as the weight reaches the relative threshold of the reference margin: it is then the
  outcome of the comparison with the reference area, and the test side is not consulted.
  Only when the reference gate fails does the test margin gate the comparison with the
  test area; when both gates fail there is no link. In particular a pair that passes the
  reference gate and fails the reference area test is not linked, whatever the test side
  says.
\<close>

theorem link_rule:
  assumes "compute_link_mat area w rm tm rd td = Inr l"
    and "i < shape0 w" and "j < shape1 w" and "cell w i j > 0"
  shows "cell l i j =
           (if np_ge (np_true_divide (cell w i j) (rm ! i)) thresholdRelative
            then np_gt (np_true_divide (cell w i j) (Finite (area (shape (rd ! i)))))
                   threshold_ref
            else if np_ge (np_true_divide (cell w i j) (tm ! j)) thresholdRelative
            then np_gt (np_true_divide (cell w i j) (Finite (area (shape (td ! j)))))
                   threshold_test
            else False)
         \<and> (np_ge (np_true_divide (cell w i j) (rm ! i)) thresholdRelative
            \<and> \<not> np_gt (np_true_divide (cell w i j) (Finite (area (shape (rd ! i)))))
                    threshold_ref
            \<longrightarrow> \<not> cell l i j)"
proof -
  have "cell l i j = significant area w rm tm rd td i j"
    using assms(1-3) by (rule compute_link_mat_Inr(7))
  with assms(4) show ?thesis by (simp add: significant_def)
qed

theorem link_rule_witness:
  "\<exists>l. compute_link_mat (\<lambda>p. p) \<lparr>shape0 = 1, shape1 = 1, cell = (\<lambda>i j. 1)\<rparr> [Finite 1] [Finite 1]
          [\<lparr>shape = 4, type = ''coin'', attributes = Map.empty\<rparr>]
          [\<lparr>shape = 1, type = ''coin'', attributes = Map.empty\<rparr>] = Inr l
        \<and> np_ge (np_true_divide 1 ([Finite 1] ! 0)) thresholdRelative
        \<and> \<not> np_gt (np_true_divide 1 (Finite 4)) threshold_ref
        \<and> np_ge (np_true_divide 1 ([Finite 1] ! 0)) thresholdRelative
        \<and> np_gt (np_true_divide 1 (Finite 1)) threshold_test
        \<and> \<not> cell l 0 0"
proof -
  obtain l where l: "compute_link_mat (\<lambda>p. p) \<lparr>shape0 = 1, shape1 = 1, cell = (\<lambda>i j. 1)\<rparr> [Finite 1] [Finite 1]
          [\<lparr>shape = 4, type = ''coin'', attributes = Map.empty\<rparr>]
          [\<lparr>shape = 1, type = ''coin'', attributes = Map.empty\<rparr>] = Inr l"
    by (simp add: compute_link_mat_def)
  from link_rule [OF l, of 0 0] l show ?thesis
    by (simp add: thresholdRelative_def threshold_ref_def threshold_test_def)
qed

text \<open>
  C6 (link soundness). A link is only ever set for a pair of positive weight. The
  property needs no assumption on the sign of the other entries of the weight matrix.
\<close>

theorem link_soundness:
  assumes "compute_link_mat area w rm tm rd td = Inr l"
    and "i < shape0 w" and "j < shape1 w" and "cell l i j"
  shows "cell w i j > 0"
proof -
  have "cell l i j = significant area w rm tm rd td i j"
    using assms(1-3) by (rule compute_link_mat_Inr(7))
  with assms(4) show ?thesis by (simp add: significant_def split: if_splits)
qed

theorem link_soundness_witness:
  "\<exists>l. compute_link_mat (\<lambda>p. p) \<lparr>shape0 = 1, shape1 = 1, cell = (\<lambda>i j. 1)\<rparr> [Finite 1] [Finite 1]
          [\<lparr>shape = 1, type = ''coin'', attributes = Map.empty\<rparr>]
          [\<lparr>shape = 1, type = ''coin'', attributes = Map.empty\<rparr>] = Inr l
        \<and> cell l 0 0
        \<and> cell \<lparr>shape0 = 1, shape1 = 1, cell = (\<lambda>i j. 1::real)\<rparr> 0 0 > 0"
proof -
  obtain l where l: "compute_link_mat (\<lambda>p. p) \<lparr>shape0 = 1, shape1 = 1, cell = (\<lambda>i j. 1)\<rparr> [Finite 1] [Finite 1]
          [\<lparr>shape = 1, type = ''coin'', attributes = Map.empty\<rparr>]
          [\<lparr>shape = 1, type = ''coin'', attributes = Map.empty\<rparr>] = Inr l"
    by (simp add: compute_link_mat_def)
  have c: "cell l 0 0"
    using compute_link_mat_Inr(7) [OF l, of 0 0]
    by (simp add: significant_def thresholdRelative_def threshold_ref_def)
  from link_soundness [OF l _ _ c] l c show ?thesis by simp
qed

text \<open>
  C9 (incompatible lengths). When the number of rows of the weight matrix differs from the
  length of the reference margin vector or of the reference annotation list, the first
  assertion fails, with a message that carries the three lengths; when the reference side
  agrees and the number of columns differs from the length of the test margin vector or
  of the test annotation list, the second assertion fails likewise. In every such case no
  link matrix is returned.
\<close>

theorem mismatch_fails:
  "(shape0 w \<noteq> length rm \<or> shape0 w \<noteq> length rd
      \<longrightarrow> compute_link_mat area w rm tm rd td =
            Inl (AssertionError ''Reference vectors have different lenghts: w:%d m:%d d:%d''
                   (shape0 w) (length rm) (length rd)))
   \<and> (shape0 w = length rm \<and> shape0 w = length rd
        \<and> (shape1 w \<noteq> length tm \<or> shape1 w \<noteq> length td)
      \<longrightarrow> compute_link_mat area w rm tm rd td =
            Inl (AssertionError ''Test vectors have different lenghts: w:%d m:%d d:%d''
                   (shape1 w) (length tm) (length td)))
   \<and> (shape0 w \<noteq> length rm \<or> shape0 w \<noteq> length rd
        \<or> shape1 w \<noteq> length tm \<or> shape1 w \<noteq> length td
      \<longrightarrow> (\<forall>l. compute_link_mat area w rm tm rd td \<noteq> Inr l))"
  by (auto simp: compute_link_mat_def Let_def)

theorem mismatch_fails_witness:
  "compute_link_mat (\<lambda>p. p) \<lparr>shape0 = 1, shape1 = 1, cell = (\<lambda>i j. 1)\<rparr> [Finite 1, Finite 2] [Finite 1]
          [\<lparr>shape = 1, type = ''coin'', attributes = Map.empty\<rparr>]
          [\<lparr>shape = 1, type = ''coin'', attributes = Map.empty\<rparr>]
     = Inl (AssertionError ''Reference vectors have different lenghts: w:%d m:%d d:%d'' 1 2 1)
   \<and> compute_link_mat (\<lambda>p. p) \<lparr>shape0 = 1, shape1 = 1, cell = (\<lambda>i j. 1)\<rparr> [Finite 1] [Finite 1]
          [\<lparr>shape = 1, type = ''coin'', attributes = Map.empty\<rparr>] []
     = Inl (AssertionError ''Test vectors have different lenghts: w:%d m:%d d:%d'' 1 1 0)"
  using mismatch_fails [where w = "\<lparr>shape0 = 1, shape1 = 1, cell = (\<lambda>i j. 1)\<rparr>"
      and rm = "[Finite 1, Finite 2]" and tm = "[Finite 1]" and area = "\<lambda>p. p"
      and rd = "[\<lparr>shape = 1, type = ''coin'', attributes = Map.empty\<rparr>]"
      and td = "[\<lparr>shape = 1, type = ''coin'', attributes = Map.empty\<rparr>]"]
    mismatch_fails [where w = "\<lparr>shape0 = 1, shape1 = 1, cell = (\<lambda>i j. 1)\<rparr>"
      and rm = "[Finite 1]" and tm = "[Finite 1]" and area = "\<lambda>p. p"
      and rd = "[\<lparr>shape = 1, type = ''coin'', attributes = Map.empty\<rparr>]"
      and td = "[]"]
  by simp

lemma significant_logged_fst:
  "fst (significant_logged area w rm tm rd td i j) = significant area w rm tm rd td i j"
  by (simp add: significant_logged_def significant_def divide_logged_def)





text \<open>
  The exact sum of a vector without negative entries is at least each entry, so a
  \<open>sum()\<close> that rounds nothing away has the property that the margins need.
\<close>

lemma exact_sum_bounds_entries:
  "sum_bounds_entries (\<lambda>xs. Finite (sum_list xs)) xs"
  by (simp add: sum_bounds_entries_def list_all_iff member_le_sum_list)

text \<open>
  In a run the weight matrix is built from the shapes themselves. If the polygon library
  returns an intersection whose area is at least zero and at most the area of each
  operand, every weight is non-negative and bounded by the areas of its two regions.
\<close>

lemma compute_weight_mat_bounds:
  assumes "\<And>a b. 0 \<le> area (intersection a b) \<and> area (intersection a b) \<le> area a
                  \<and> area (intersection a b) \<le> area b"
    and "i < length rd" and "j < length td"
  shows "0 \<le> cell (compute_weight_mat intersection area rd td) i j
       \<and> cell (compute_weight_mat intersection area rd td) i j \<le> area (shape (rd ! i))
       \<and> cell (compute_weight_mat intersection area rd td) i j \<le> area (shape (td ! j))"
  using assms by (simp add: compute_weight_mat_cell)




subsection \<open>The counting loops\<close>

lemma fold_count:
  "fold (\<lambda>k (c::int). if p k then c + 1 else c) xs c0 = c0 + int (length (filter p xs))"
  by (induction xs arbitrary: c0) simp_all

lemma fold_count_index:
  "fold (\<lambda>j (c::int, ix). if p j then (c + 1, j) else (c, ix)) xs (c0, ix0) =
     (c0 + int (length (filter p xs)), if filter p xs = [] then ix0 else last (filter p xs))"
  by (induction xs arbitrary: c0 ix0) simp_all

lemma fold_sum_count:
  "fold (\<lambda>i (a::int, b::int). if q i then (a + g i, b + 1) else (a, b)) xs (a0, b0) =
     (a0 + sum_list (map g (filter q xs)), b0 + int (length (filter q xs)))"
  by (induction xs arbitrary: a0 b0) simp_all

lemma first_match_eq:
  "first_match p xs c = (if \<exists>x\<in>set xs. p x then c + 1 else c)"
  by (induction xs) simp_all

lemma count_matches_eq:
  "count_matches p n = int (length (filter p [0..<n]))"
  by (simp add: count_matches_def fold_count)

lemma count_matches_index_eq:
  "count_matches_index p n =
     (int (length (filter p [0..<n])),
      if filter p [0..<n] = [] then 0 else last (filter p [0..<n]))"
  by (simp add: count_matches_index_def fold_count_index)

lemma count_matches_row: "count_matches (\<lambda>j. cell l i j) (shape1 l) = int (row_degree l i)"
  by (simp add: count_matches_eq row_degree_def)

lemma count_matches_col: "count_matches (\<lambda>i. cell l i j) (shape0 l) = int (col_degree l j)"
  by (simp add: count_matches_eq col_degree_def)

lemma first_match_row:
  "first_match (\<lambda>j. cell l i j) [0..<shape1 l] 0 = (if row_degree l i = 0 then 0 else 1)"
  by (auto simp: first_match_eq row_degree_def filter_empty_conv)

lemma first_match_col:
  "first_match (\<lambda>i. cell l i j) [0..<shape0 l] 0 = (if col_degree l j = 0 then 0 else 1)"
  by (auto simp: first_match_eq col_degree_def filter_empty_conv)

lemma num_over_eq:
  "find_num_over_segmentation_components l =
     int (length (filter (\<lambda>i. row_degree l i > 1) [0..<shape0 l]))"
  by (simp add: find_num_over_segmentation_components_def Let_def count_matches_row fold_count)

lemma num_under_eq:
  "find_num_under_segmentation_components l =
     int (length (filter (\<lambda>j. col_degree l j > 1) [0..<shape1 l]))"
  by (simp add: find_num_under_segmentation_components_def Let_def count_matches_col fold_count)

lemma num_missed_eq:
  "find_num_missed_components l =
     int (length (filter (\<lambda>i. row_degree l i = 0) [0..<shape0 l]))"
  by (simp add: find_num_missed_components_def Let_def first_match_row fold_count)

lemma num_false_alarm_eq:
  "find_num_false_alarm_components l =
     int (length (filter (\<lambda>j. col_degree l j = 0) [0..<shape1 l]))"
  by (simp add: find_num_false_alarm_components_def Let_def first_match_col fold_count)

lemma total_over_eq:
  "find_total_over_segmentation l =
     sum_list (map (\<lambda>i. int (row_degree l i)) (filter (\<lambda>i. row_degree l i > 1) [0..<shape0 l]))
     - int (length (filter (\<lambda>i. row_degree l i > 1) [0..<shape0 l]))"
  by (simp add: find_total_over_segmentation_def Let_def count_matches_row fold_sum_count)

lemma total_under_eq:
  "find_total_under_segmentation l =
     sum_list (map (\<lambda>j. int (col_degree l j)) (filter (\<lambda>j. col_degree l j > 1) [0..<shape1 l]))
     - int (length (filter (\<lambda>j. col_degree l j > 1) [0..<shape1 l]))"
  by (simp add: find_total_under_segmentation_def Let_def count_matches_col fold_sum_count)

lemma sum_list_minus_one:
  "sum_list (map (\<lambda>i. (g i :: int) - 1) xs) = sum_list (map g xs) - int (length xs)"
  by (induction xs) simp_all

lemma filter_single_ex:
  assumes "filter p xs = [j0]"
  shows "(\<exists>j\<in>set xs. p j \<and> q j) \<longleftrightarrow> q j0"
proof -
  have eq: "set (filter p xs) = {j0}" using assms by simp
  have mem: "j0 \<in> set xs \<and> p j0" using eq by auto
  have uniq: "\<And>j. j \<in> set xs \<Longrightarrow> p j \<Longrightarrow> j = j0"
  proof -
    fix j assume "j \<in> set xs" "p j"
    then have "j \<in> set (filter p xs)" by simp
    with eq show "j = j0" by simp
  qed
  from mem uniq show ?thesis by blast
qed

lemma length_one_last:
  "length ys = Suc 0 \<Longrightarrow> ys = [last ys]"
  by (cases ys) auto

lemma correct_row_step:
  "(case count_matches_index (\<lambda>j. cell l i j) (shape1 l) of
      (row_match_count, row_match_index) \<Rightarrow>
        if row_match_count = 1 then
          if count_matches (\<lambda>ii. cell l ii row_match_index) (shape0 l) = 1
          then (t::int) + 1 else t
        else t)
   = (if row_degree l i = 1 \<and> (\<exists>j\<in>set [0..<shape1 l]. cell l i j \<and> col_degree l j = 1)
      then t + 1 else t)"
proof (cases "row_degree l i = 1")
  case False
  then show ?thesis
    by (simp add: count_matches_index_eq row_degree_def)
next
  case True
  let ?ys = "filter (\<lambda>j. cell l i j) [0..<shape1 l]"
  from True have len: "length ?ys = Suc 0" by (simp add: row_degree_def)
  then have single: "?ys = [last ?ys]" by (rule length_one_last)
  have ne: "?ys \<noteq> []" using len by auto
  have ex: "(\<exists>j\<in>set [0..<shape1 l]. cell l i j \<and> col_degree l j = 1)
              \<longleftrightarrow> col_degree l (last ?ys) = 1"
    using single by (rule filter_single_ex)
  have "count_matches_index (\<lambda>j. cell l i j) (shape1 l) = (1, last ?ys)"
    using len ne by (simp add: count_matches_index_eq)
  then show ?thesis
    using True ex by (simp add: count_matches_col)
qed

lemma total_correct_eq:
  "find_total_correct_segmentation l =
     int (length (filter (\<lambda>i. row_degree l i = 1
                              \<and> (\<exists>j\<in>set [0..<shape1 l]. cell l i j \<and> col_degree l j = 1))
                    [0..<shape0 l]))"
  unfolding find_total_correct_segmentation_def Let_def correct_row_step
  by (simp only: fold_count)

lemma length_filter_split:
  assumes "\<And>x. x \<in> set xs \<Longrightarrow> P x \<Longrightarrow> Q x \<noteq> R x"
  shows "length (filter P xs) =
           length (filter (\<lambda>x. P x \<and> Q x) xs) + length (filter (\<lambda>x. P x \<and> R x) xs)"
  using assms by (induction xs) auto

lemma length_filter3_le:
  assumes "\<And>x. x \<in> set xs \<Longrightarrow> \<not> (P x \<and> Q x) \<and> \<not> (P x \<and> R x) \<and> \<not> (Q x \<and> R x)"
  shows "length (filter P xs) + length (filter Q xs) + length (filter R xs) \<le> length xs"
  using assms
proof (induction xs)
  case Nil
  then show ?case by simp
next
  case (Cons x xs)
  then have ih: "length (filter P xs) + length (filter Q xs) + length (filter R xs) \<le> length xs"
    by simp
  have "\<not> (P x \<and> Q x) \<and> \<not> (P x \<and> R x) \<and> \<not> (Q x \<and> R x)"
    using Cons.prems by simp
  with ih show ?case by auto
qed

lemma linked_col_degree_pos:
  assumes "i < shape0 l" and "cell l i j"
  shows "col_degree l j \<ge> 1"
proof -
  have "filter (\<lambda>i. cell l i j) [0..<shape0 l] \<noteq> []"
    using assms by (auto simp: filter_empty_conv)
  then show ?thesis by (simp add: col_degree_def Suc_le_eq)
qed

lemma col_degree_one_unique:
  assumes "col_degree l j = 1" and "i < shape0 l" and "cell l i j"
  shows "last (filter (\<lambda>i. cell l i j) [0..<shape0 l]) = i"
proof -
  let ?ys = "filter (\<lambda>i. cell l i j) [0..<shape0 l]"
  have "length ?ys = Suc 0" using assms(1) by (simp add: col_degree_def)
  then have single: "?ys = [last ?ys]" by (rule length_one_last)
  have "i \<in> set ?ys" using assms(2,3) by simp
  then have "i \<in> set [last ?ys]" using single by simp
  then show ?thesis by simp
qed

lemma correct_rows_le_degree_one_cols:
  "length (filter (\<lambda>i. row_degree l i = 1
                        \<and> (\<exists>j\<in>set [0..<shape1 l]. cell l i j \<and> col_degree l j = 1))
              [0..<shape0 l])
   \<le> length (filter (\<lambda>j. col_degree l j = 1) [0..<shape1 l])"
proof -
  let ?A = "{i. row_degree l i = 1 \<and> (\<exists>j\<in>set [0..<shape1 l]. cell l i j \<and> col_degree l j = 1)}
              \<inter> set [0..<shape0 l]"
  let ?B = "{j. col_degree l j = 1} \<inter> set [0..<shape1 l]"
  let ?g = "\<lambda>j. last (filter (\<lambda>i. cell l i j) [0..<shape0 l])"
  have sub: "?A \<subseteq> ?g ` ?B"
  proof
    fix i assume "i \<in> ?A"
    then obtain j where i: "i < shape0 l" and j: "j \<in> set [0..<shape1 l]"
      and c: "cell l i j" and d: "col_degree l j = 1"
      by auto
    from d i c have "?g j = i" by (rule col_degree_one_unique)
    moreover from j d have "j \<in> ?B" by simp
    ultimately show "i \<in> ?g ` ?B" by blast
  qed
  have finB: "finite ?B" by simp
  have "card ?A \<le> card (?g ` ?B)"
    using sub finB by (intro card_mono) auto
  also have "\<dots> \<le> card ?B" using finB by (rule card_image_le)
  finally have "card ?A \<le> card ?B" .
  then show ?thesis by (simp add: distinct_length_filter)
qed

text \<open>
  C4 (strict one-to-one matches). \<open>Tc\<close> is the number of reference rows of degree exactly
  one whose linked column has degree exactly one. Equivalently it is the number of rows
  of degree one, less those among them whose linked column has a degree greater than one:
  such a row does not count.
\<close>

theorem total_correct_segmentation_strict:
  "find_total_correct_segmentation l =
     int (length (filter (\<lambda>i. row_degree l i = 1
                              \<and> (\<exists>j<shape1 l. cell l i j \<and> col_degree l j = 1))
                    [0..<shape0 l]))
   \<and> find_total_correct_segmentation l =
       int (length (filter (\<lambda>i. row_degree l i = 1) [0..<shape0 l]))
       - int (length (filter (\<lambda>i. row_degree l i = 1
                                   \<and> (\<exists>j<shape1 l. cell l i j \<and> col_degree l j > 1))
                         [0..<shape0 l]))"
proof -
  let ?P = "\<lambda>i. row_degree l i = 1"
  let ?Q = "\<lambda>i. \<exists>j<shape1 l. cell l i j \<and> col_degree l j = 1"
  let ?R = "\<lambda>i. \<exists>j<shape1 l. cell l i j \<and> col_degree l j > 1"
  have bex: "\<And>i q. (\<exists>j\<in>set [0..<shape1 l]. cell l i j \<and> q j) \<longleftrightarrow> (\<exists>j<shape1 l. cell l i j \<and> q j)"
    by auto
  have tc: "find_total_correct_segmentation l =
              int (length (filter (\<lambda>i. ?P i \<and> ?Q i) [0..<shape0 l]))"
    by (simp only: total_correct_eq bex)
  have excl: "\<And>i. i \<in> set [0..<shape0 l] \<Longrightarrow> ?P i \<Longrightarrow> ?Q i \<noteq> ?R i"
  proof -
    fix i assume i: "i \<in> set [0..<shape0 l]" and p: "?P i"
    let ?ys = "filter (\<lambda>j. cell l i j) [0..<shape1 l]"
    from p have "length ?ys = Suc 0" by (simp add: row_degree_def)
    then have single: "?ys = [last ?ys]" by (rule length_one_last)
    have q: "?Q i \<longleftrightarrow> col_degree l (last ?ys) = 1"
      using filter_single_ex [OF single, of "\<lambda>j. col_degree l j = 1"] by (simp only: bex)
    have r: "?R i \<longleftrightarrow> col_degree l (last ?ys) > 1"
      using filter_single_ex [OF single, of "\<lambda>j. col_degree l j > 1"] by (simp only: bex)
    have "last ?ys \<in> set ?ys" using single by (metis list.set_intros(1))
    then have "cell l i (last ?ys)" by simp
    with i have "col_degree l (last ?ys) \<ge> 1" by (intro linked_col_degree_pos) auto
    with q r show "?Q i \<noteq> ?R i" by auto
  qed
  have "length (filter ?P [0..<shape0 l]) =
          length (filter (\<lambda>i. ?P i \<and> ?Q i) [0..<shape0 l])
          + length (filter (\<lambda>i. ?P i \<and> ?R i) [0..<shape0 l])"
    using excl by (rule length_filter_split)
  with tc show ?thesis by simp
qed

theorem total_correct_segmentation_strict_witness:
  "find_total_correct_segmentation
     \<lparr>shape0 = 3, shape1 = 2,
      cell = (\<lambda>i j. (i = 0 \<and> j = 0) \<or> (i = 1 \<and> j = 0) \<or> (i = 2 \<and> j = 1))\<rparr> = 1"
  using total_correct_segmentation_strict [of "\<lparr>shape0 = 3, shape1 = 2,
      cell = (\<lambda>i j. (i = 0 \<and> j = 0) \<or> (i = 1 \<and> j = 0) \<or> (i = 2 \<and> j = 1))\<rparr>"]
  by (simp add: row_degree_def col_degree_def upt_rec)

text \<open>
  C5 (total over- and under-segmentation). \<open>To\<close> is the sum of \<open>degree - 1\<close> over the
  reference rows of degree greater than one, which is the sum of the degrees of those rows
  minus \<open>Co\<close>; \<open>Tu\<close> is the same over the test columns, with \<open>Cu\<close>.
\<close>

theorem total_over_under_segmentation:
  "find_total_over_segmentation l =
     (\<Sum>i\<leftarrow>filter (\<lambda>i. row_degree l i > 1) [0..<shape0 l]. int (row_degree l i) - 1)
   \<and> find_total_over_segmentation l =
       (\<Sum>i\<leftarrow>filter (\<lambda>i. row_degree l i > 1) [0..<shape0 l]. int (row_degree l i))
       - find_num_over_segmentation_components l
   \<and> find_total_under_segmentation l =
       (\<Sum>j\<leftarrow>filter (\<lambda>j. col_degree l j > 1) [0..<shape1 l]. int (col_degree l j) - 1)
   \<and> find_total_under_segmentation l =
       (\<Sum>j\<leftarrow>filter (\<lambda>j. col_degree l j > 1) [0..<shape1 l]. int (col_degree l j))
       - find_num_under_segmentation_components l"
  by (simp only: total_over_eq total_under_eq num_over_eq num_under_eq sum_list_minus_one)

theorem total_over_under_segmentation_witness:
  "find_total_over_segmentation
     \<lparr>shape0 = 2, shape1 = 3, cell = (\<lambda>i j. i = 0 \<and> (j = 0 \<or> j = 2))\<rparr> = 1
   \<and> find_total_under_segmentation
     \<lparr>shape0 = 3, shape1 = 2, cell = (\<lambda>i j. j = 1)\<rparr> = 2"
  using total_over_under_segmentation
      [of "\<lparr>shape0 = 2, shape1 = 3, cell = (\<lambda>i j. i = 0 \<and> (j = 0 \<or> j = 2))\<rparr>"]
    total_over_under_segmentation [of "\<lparr>shape0 = 3, shape1 = 2, cell = (\<lambda>i j. j = 1)\<rparr>"]
  by (simp add: row_degree_def col_degree_def upt_rec)

text \<open>
  C10 (accounting bounds). In every link matrix \<open>Tc + Co + Cm\<close> is at most the number of
  rows and \<open>Tc + Cu + Cf\<close> at most the number of columns: the rows counted by \<open>Tc\<close>, \<open>Co\<close>
  and \<open>Cm\<close> have degree one, more than one and zero, and the rows counted by \<open>Tc\<close> are
  linked to pairwise distinct columns of degree one.
\<close>

theorem accounting_bounds:
  "find_total_correct_segmentation l + find_num_over_segmentation_components l
     + find_num_missed_components l \<le> int (shape0 l)
   \<and> find_total_correct_segmentation l + find_num_under_segmentation_components l
     + find_num_false_alarm_components l \<le> int (shape1 l)"
proof -
  let ?C = "\<lambda>i. row_degree l i = 1
                \<and> (\<exists>j\<in>set [0..<shape1 l]. cell l i j \<and> col_degree l j = 1)"
  have "length (filter ?C [0..<shape0 l])
          + length (filter (\<lambda>i. row_degree l i > 1) [0..<shape0 l])
          + length (filter (\<lambda>i. row_degree l i = 0) [0..<shape0 l]) \<le> length [0..<shape0 l]"
    by (rule length_filter3_le) auto
  then have rows: "find_total_correct_segmentation l + find_num_over_segmentation_components l
     + find_num_missed_components l \<le> int (shape0 l)"
    by (simp add: total_correct_eq num_over_eq num_missed_eq)
  have "length (filter (\<lambda>j. col_degree l j = 1) [0..<shape1 l])
          + length (filter (\<lambda>j. col_degree l j > 1) [0..<shape1 l])
          + length (filter (\<lambda>j. col_degree l j = 0) [0..<shape1 l]) \<le> length [0..<shape1 l]"
    by (rule length_filter3_le) auto
  with correct_rows_le_degree_one_cols [of l]
  have "length (filter ?C [0..<shape0 l])
          + length (filter (\<lambda>j. col_degree l j > 1) [0..<shape1 l])
          + length (filter (\<lambda>j. col_degree l j = 0) [0..<shape1 l]) \<le> shape1 l"
    by simp
  then have cols: "find_total_correct_segmentation l + find_num_under_segmentation_components l
     + find_num_false_alarm_components l \<le> int (shape1 l)"
    by (simp add: total_correct_eq num_under_eq num_false_alarm_eq)
  from rows cols show ?thesis by simp
qed

subsection \<open>Runs with an empty side\<close>

text \<open>
  In the closed examples below a region is a segment \<open>[0, a]\<close> of the real line, given by
  its length \<open>a\<close>: the intersection of two segments is \<open>min\<close> and the area is the length.
\<close>

lemma main_process_result:
  "\<exists>l. shape0 l = length (restrict_types tr ref_input)
      \<and> shape1 l = length (restrict_types tr test_input)
      \<and> main_process intersection area np_sum tr ref_input test_input =
          Inr \<lparr>Tc = find_total_correct_segmentation l,
               To = find_total_over_segmentation l,
               Tu = find_total_under_segmentation l,
               Co = find_num_over_segmentation_components l,
               Cu = find_num_under_segmentation_components l,
               Cm = find_num_missed_components l,
               Cf = find_num_false_alarm_components l,
               Cr = shape0 l,
               Ct = shape1 l\<rparr>"
proof -
  let ?rd = "restrict_types tr ref_input"
  let ?td = "restrict_types tr test_input"
  let ?w = "compute_weight_mat intersection area ?rd ?td"
  have "\<exists>l. compute_link_mat area ?w (compute_ref_margin_vect np_sum ?w)
              (compute_test_margin_vect np_sum ?w) ?rd ?td = Inr l"
    by (rule compute_link_mat_ok)
       (simp_all add: length_compute_ref_margin_vect length_compute_test_margin_vect
          compute_weight_mat_shape)
  then obtain l where l: "compute_link_mat area ?w (compute_ref_margin_vect np_sum ?w)
      (compute_test_margin_vect np_sum ?w) ?rd ?td = Inr l" ..
  have s0: "shape0 l = length ?rd"
    using compute_link_mat_Inr(5) [OF l] by (simp add: compute_weight_mat_shape)
  have s1: "shape1 l = length ?td"
    using compute_link_mat_Inr(6) [OF l] by (simp add: compute_weight_mat_shape)
  have "main_process intersection area np_sum tr ref_input test_input =
          Inr \<lparr>Tc = find_total_correct_segmentation l,
               To = find_total_over_segmentation l,
               Tu = find_total_under_segmentation l,
               Co = find_num_over_segmentation_components l,
               Cu = find_num_under_segmentation_components l,
               Cm = find_num_missed_components l,
               Cf = find_num_false_alarm_components l,
               Cr = shape0 l,
               Ct = shape1 l\<rparr>"
    using l by (simp add: main_process_def Let_def)
  with s0 s1 show ?thesis by blast
qed

lemma metrics_no_rows:
  assumes "shape0 l = 0"
  shows "find_total_correct_segmentation l = 0"
    "find_total_over_segmentation l = 0"
    "find_total_under_segmentation l = 0"
    "find_num_over_segmentation_components l = 0"
    "find_num_under_segmentation_components l = 0"
    "find_num_missed_components l = 0"
    "find_num_false_alarm_components l = int (shape1 l)"
proof -
  have c: "\<And>j. col_degree l j = 0" using assms by (simp add: col_degree_def)
  show "find_total_correct_segmentation l = 0" using assms by (simp add: total_correct_eq)
  show "find_total_over_segmentation l = 0" using assms by (simp add: total_over_eq)
  show "find_total_under_segmentation l = 0" by (simp add: total_under_eq c)
  show "find_num_over_segmentation_components l = 0" using assms by (simp add: num_over_eq)
  show "find_num_under_segmentation_components l = 0" by (simp add: num_under_eq c)
  show "find_num_missed_components l = 0" using assms by (simp add: num_missed_eq)
  show "find_num_false_alarm_components l = int (shape1 l)" by (simp add: num_false_alarm_eq c)
qed

lemma metrics_no_cols:
  assumes "shape1 l = 0"
  shows "find_total_correct_segmentation l = 0"
    "find_total_over_segmentation l = 0"
    "find_total_under_segmentation l = 0"
    "find_num_over_segmentation_components l = 0"
    "find_num_under_segmentation_components l = 0"
    "find_num_missed_components l = int (shape0 l)"
    "find_num_false_alarm_components l = 0"
proof -
  have r: "\<And>i. row_degree l i = 0" using assms by (simp add: row_degree_def)
  show "find_total_correct_segmentation l = 0" by (simp add: total_correct_eq r)
  show "find_total_over_segmentation l = 0" by (simp add: total_over_eq r)
  show "find_total_under_segmentation l = 0" using assms by (simp add: total_under_eq)
  show "find_num_over_segmentation_components l = 0" by (simp add: num_over_eq r)
  show "find_num_under_segmentation_components l = 0" using assms by (simp add: num_under_eq)
  show "find_num_missed_components l = int (shape0 l)" by (simp add: num_missed_eq r)
  show "find_num_false_alarm_components l = 0" using assms by (simp add: num_false_alarm_eq)
qed

text \<open>
  C3 (empty reference list). When no reference annotation remains after the type
  restriction and at least one test annotation does, the run returns its counts and
  raises no error: \<open>Cr = 0\<close>, \<open>Cf = Ct\<close> is the number of test annotations, and
  \<open>Tc\<close>, \<open>To\<close>, \<open>Tu\<close>, \<open>Co\<close>, \<open>Cu\<close> and \<open>Cm\<close> are zero.
\<close>

theorem empty_reference:
  assumes "restrict_types tr ref_input = []" and "restrict_types tr test_input \<noteq> []"
  shows "main_process intersection area np_sum tr ref_input test_input =
           Inr \<lparr>Tc = 0, To = 0, Tu = 0, Co = 0, Cu = 0, Cm = 0,
                Cf = int (length (restrict_types tr test_input)),
                Cr = 0, Ct = length (restrict_types tr test_input)\<rparr>"
proof -
  obtain l where s0: "shape0 l = length (restrict_types tr ref_input)"
    and s1: "shape1 l = length (restrict_types tr test_input)"
    and m: "main_process intersection area np_sum tr ref_input test_input =
          Inr \<lparr>Tc = find_total_correct_segmentation l,
               To = find_total_over_segmentation l,
               Tu = find_total_under_segmentation l,
               Co = find_num_over_segmentation_components l,
               Cu = find_num_under_segmentation_components l,
               Cm = find_num_missed_components l,
               Cf = find_num_false_alarm_components l,
               Cr = shape0 l,
               Ct = shape1 l\<rparr>"
    using main_process_result [of tr ref_input test_input intersection area np_sum] by blast
  from s0 assms(1) have z: "shape0 l = 0" by simp
  show ?thesis by (simp add: m metrics_no_rows [OF z] z s1)
qed

theorem empty_reference_witness:
  "main_process min (\<lambda>p. p) f64_sum_in_order (Some [''coin''])
     [\<lparr>shape = 2, type = ''noise'', attributes = Map.empty\<rparr>]
     [\<lparr>shape = 1, type = ''coin'', attributes = Map.empty\<rparr>,
      \<lparr>shape = 5, type = ''text'', attributes = Map.empty\<rparr>,
      \<lparr>shape = 3, type = ''coin'', attributes = Map.empty\<rparr>]
   = Inr \<lparr>Tc = 0, To = 0, Tu = 0, Co = 0, Cu = 0, Cm = 0, Cf = 2, Cr = 0, Ct = 2\<rparr>"
  using empty_reference [of "Some [''coin'']"
     "[\<lparr>shape = 2, type = ''noise'', attributes = Map.empty\<rparr>]"
     "[\<lparr>shape = 1, type = ''coin'', attributes = Map.empty\<rparr>,
      \<lparr>shape = 5, type = ''text'', attributes = Map.empty\<rparr>,
      \<lparr>shape = 3, type = ''coin'', attributes = Map.empty\<rparr>]" min "\<lambda>p. p" f64_sum_in_order]
  by (simp add: restrict_types_def)

text \<open>
  C2 as stated, all counts zero except \<open>Cr\<close> and \<open>Ct\<close> as soon as one side is empty,
  does not hold: with no reference region and one test region \<open>Cf\<close> is 1, and with one
  reference region and no test region \<open>Cm\<close> is 1.
\<close>

theorem empty_side_counterexample:
  "main_process min (\<lambda>p. p) f64_sum_in_order None []
     [\<lparr>shape = 1, type = ''coin'', attributes = Map.empty\<rparr>]
   = Inr \<lparr>Tc = 0, To = 0, Tu = 0, Co = 0, Cu = 0, Cm = 0, Cf = 1, Cr = 0, Ct = 1\<rparr>
   \<and> main_process min (\<lambda>p. p) f64_sum_in_order None
     [\<lparr>shape = 1, type = ''coin'', attributes = Map.empty\<rparr>] []
   = Inr \<lparr>Tc = 0, To = 0, Tu = 0, Co = 0, Cu = 0, Cm = 1, Cf = 0, Cr = 1, Ct = 0\<rparr>"
  by (simp add: main_process_def restrict_types_def compute_weight_mat_def
      compute_ref_margin_vect_def compute_test_margin_vect_def compute_link_mat_def
      np_empty_def np_empty_vect_def setitem_def f64_sum_in_order_def row_slice_def col_slice_def
      find_total_correct_segmentation_def find_total_over_segmentation_def
      find_total_under_segmentation_def find_num_over_segmentation_components_def
      find_num_under_segmentation_components_def find_num_missed_components_def
      find_num_false_alarm_components_def count_matches_def count_matches_index_def)

text \<open>
  C2 (an empty side), as amended. When the reference list or the test list is empty the
  run raises no error; \<open>Tc\<close>, \<open>To\<close>, \<open>Tu\<close>, \<open>Co\<close> and \<open>Cu\<close> are zero, while every
  reference region is missed and every test region is a false alarm: \<open>Cm = Cr\<close> is the
  number of reference annotations and \<open>Cf = Ct\<close> the number of test annotations.
\<close>

theorem empty_side:
  assumes "restrict_types tr ref_input = [] \<or> restrict_types tr test_input = []"
  shows "main_process intersection area np_sum tr ref_input test_input =
           Inr \<lparr>Tc = 0, To = 0, Tu = 0, Co = 0, Cu = 0,
                Cm = int (length (restrict_types tr ref_input)),
                Cf = int (length (restrict_types tr test_input)),
                Cr = length (restrict_types tr ref_input),
                Ct = length (restrict_types tr test_input)\<rparr>"
proof -
  obtain l where s0: "shape0 l = length (restrict_types tr ref_input)"
    and s1: "shape1 l = length (restrict_types tr test_input)"
    and m: "main_process intersection area np_sum tr ref_input test_input =
          Inr \<lparr>Tc = find_total_correct_segmentation l,
               To = find_total_over_segmentation l,
               Tu = find_total_under_segmentation l,
               Co = find_num_over_segmentation_components l,
               Cu = find_num_under_segmentation_components l,
               Cm = find_num_missed_components l,
               Cf = find_num_false_alarm_components l,
               Cr = shape0 l,
               Ct = shape1 l\<rparr>"
    using main_process_result [of tr ref_input test_input intersection area np_sum] by blast
  from assms show ?thesis
  proof
    assume "restrict_types tr ref_input = []"
    with s0 have z: "shape0 l = 0" by simp
    show ?thesis using s0 by (simp add: m metrics_no_rows [OF z] z s1)
  next
    assume "restrict_types tr test_input = []"
    with s1 have z: "shape1 l = 0" by simp
    show ?thesis using s1 by (simp add: m metrics_no_cols [OF z] z s0)
  qed
qed

theorem empty_side_witness:
  "main_process min (\<lambda>p. p) f64_sum_in_order None []
     [\<lparr>shape = 1, type = ''coin'', attributes = Map.empty\<rparr>,
      \<lparr>shape = 2, type = ''text'', attributes = Map.empty\<rparr>]
   = Inr \<lparr>Tc = 0, To = 0, Tu = 0, Co = 0, Cu = 0, Cm = 0, Cf = 2, Cr = 0, Ct = 2\<rparr>
   \<and> main_process min (\<lambda>p. p) f64_sum_in_order (Some [])
     [\<lparr>shape = 1, type = ''coin'', attributes = Map.empty\<rparr>,
      \<lparr>shape = 2, type = ''text'', attributes = Map.empty\<rparr>,
      \<lparr>shape = 2, type = ''text'', attributes = Map.empty\<rparr>] []
   = Inr \<lparr>Tc = 0, To = 0, Tu = 0, Co = 0, Cu = 0, Cm = 3, Cf = 0, Cr = 3, Ct = 0\<rparr>"
  using empty_side [of None "[]"
     "[\<lparr>shape = 1, type = ''coin'', attributes = Map.empty\<rparr>,
      \<lparr>shape = 2, type = ''text'', attributes = Map.empty\<rparr>]" min "\<lambda>p. p" f64_sum_in_order]
    empty_side [of "Some []" "[\<lparr>shape = 1, type = ''coin'', attributes = Map.empty\<rparr>,
      \<lparr>shape = 2, type = ''text'', attributes = Map.empty\<rparr>,
      \<lparr>shape = 2, type = ''text'', attributes = Map.empty\<rparr>]" "[]" min "\<lambda>p. p" f64_sum_in_order]
  by (simp add: restrict_types_def)

end
